theory Spec2Isabelle
  imports Main "HOL-Library.Char_ord" "HOL-Library.List_Lexorder"
begin

section \<open>Exceptions and the exception translation boundary\<close>

text \<open>
  The classes of \<^verbatim>\<open>sqlalchemy.exc\<close> that the repository can meet. Every one of them is a
  subclass of \<^verbatim>\<open>SQLAlchemyError\<close>; \<open>OtherSQLAlchemyError\<close> stands for the base class and
  for the subclasses not named here.
\<close>

datatype sqlalchemy_class =
    IntegrityError
  | MultipleResultsFound
  | NoResultFound
  | InvalidRequestError
  | ArgumentError
  | OtherSQLAlchemyError

text \<open>
  A raised exception: an instance of a \<^verbatim>\<open>SQLAlchemyError\<close> class with its message
  (\<^verbatim>\<open>str(exc)\<close>), or one of the exceptions of \<^verbatim>\<open>starlite_saqlalchemy.exceptions\<close>, none of
  which derives from \<^verbatim>\<open>SQLAlchemyError\<close>.
\<close>

datatype exc =
    SQLAlchemyError sqlalchemy_class string
  | ConflictError
  | StarliteSaqlalchemyError string
  | NotFoundError string
  | ValueError string

text \<open>
  Sequencing of fallible steps: the first raise ends the block. An operation returns the
  exception it raises, or its result with the session as it leaves it; what the session
  holds after a raise is not modelled.
\<close>

definition and_then :: "exc + 'a \<Rightarrow> ('a \<Rightarrow> exc + 'b) \<Rightarrow> exc + 'b" where
  "and_then m f = (case m of Inl e \<Rightarrow> Inl e | Inr x \<Rightarrow> f x)"

text \<open>
  \<^verbatim>\<open>wrap_sqlalchemy_exception\<close>, applied to the outcome of the block it guards. The
  \<^verbatim>\<open>except\<close> clauses are tried in order: \<^verbatim>\<open>IntegrityError\<close> first, then any other
  \<^verbatim>\<open>SQLAlchemyError\<close>; every other exception leaves the block as it is.
\<close>

fun wrap_sqlalchemy_exception :: "exc + 'a \<Rightarrow> exc + 'a" where
  "wrap_sqlalchemy_exception (Inr x) = Inr x"
| "wrap_sqlalchemy_exception (Inl (SQLAlchemyError IntegrityError msg)) = Inl ConflictError"
| "wrap_sqlalchemy_exception (Inl (SQLAlchemyError cls msg)) =
     Inl (StarliteSaqlalchemyError (''An exception occurred: '' @ msg))"
| "wrap_sqlalchemy_exception (Inl e) = Inl e"

section \<open>Entities, filters and select statements\<close>

type_synonym field_name = string

text \<open>
  The column values of one row, or of one mapped instance: an association list from
  column names to values. A column that is missing is \<^verbatim>\<open>NULL\<close> (\<^verbatim>\<open>None\<close>).
\<close>

type_synonym 'v entity = "(field_name \<times> 'v) list"

definition getattr :: "'v entity \<Rightarrow> field_name \<Rightarrow> 'v option" where
  "getattr e field_name = map_of e field_name"

text \<open>
  Modelled from the spec: \<^verbatim>\<open>AbstractRepository.id_attribute\<close> is declared in
  \<^verbatim>\<open>repository/abc.py\<close>, which is not among the sources; the spec asks for "a unique
  identifier attribute", and \<^verbatim>\<open>orm.Base\<close> names the primary key column \<^verbatim>\<open>id\<close>.
\<close>

definition id_attribute :: field_name where
  "id_attribute = ''id''"

text \<open>
  The filter value objects of \<^verbatim>\<open>repository/filters.py\<close>, read through the attributes
  that \<^verbatim>\<open>_apply_filters\<close> uses: \<^verbatim>\<open>LimitOffset(limit, offset)\<close>, both taken to be natural
  numbers, \<^verbatim>\<open>BeforeAfter(field_name, before, after)\<close> and \<^verbatim>\<open>CollectionFilter(field_name,
  values)\<close>. \<open>UnexpectedFilter\<close> is any other object handed over as a filter, with its
  \<^verbatim>\<open>str\<close>.
\<close>

datatype 'v filter_types =
    LimitOffset nat nat
  | BeforeAfter field_name "'v option" "'v option"
  | CollectionFilter field_name "'v option list"
  | UnexpectedFilter string

text \<open>
  The criteria the repository adds to a statement: \<^verbatim>\<open>column < v\<close>, \<^verbatim>\<open>column > v\<close>,
  \<^verbatim>\<open>column.in_(values)\<close> and \<^verbatim>\<open>column == v\<close> (which SQLAlchemy renders as \<^verbatim>\<open>IS NULL\<close> when
  \<open>v\<close> is \<^verbatim>\<open>None\<close>).
\<close>

datatype 'v clause =
    Lt field_name 'v
  | Gt field_name 'v
  | In field_name "'v option list"
  | Eq field_name "'v option"

text \<open>
  A \<^verbatim>\<open>Select\<close> over the model's table, as far as the repository shapes it: the criteria
  joined by \<^verbatim>\<open>AND\<close>, \<^verbatim>\<open>LIMIT\<close> and \<^verbatim>\<open>OFFSET\<close>. The column clause (the entity, a count, the
  entity with a windowed count) is fixed by the operation that runs the statement.
\<close>

record 'v select =
  whereclause :: "'v clause list"
  limit_clause :: "nat option"
  offset_clause :: "nat option"

text \<open>\<^verbatim>\<open>select(self.model_type)\<close>\<close>

definition select_model :: "'v select" where
  "select_model = \<lparr>whereclause = [], limit_clause = None, offset_clause = None\<rparr>"

text \<open>\<^verbatim>\<open>statement.where(criterion)\<close>\<close>

definition add_where :: "'v select \<Rightarrow> 'v clause \<Rightarrow> 'v select" where
  "add_where statement criterion = statement\<lparr>whereclause := whereclause statement @ [criterion]\<rparr>"

text \<open>
  The comparison operators of a column. SQLAlchemy refuses an ordering comparison with
  \<^verbatim>\<open>None\<close> when the expression is built (\<^verbatim>\<open>ArgumentError\<close>).
\<close>

definition none_operand :: string where
  "none_operand = ''Only '=', '!=', 'is_()', 'is_not()', 'is_distinct_from()', 'is_not_distinct_from()' operators can be used with None/True/False''"

definition column_lt :: "field_name \<Rightarrow> 'v option \<Rightarrow> exc + 'v clause" where
  "column_lt field v =
     (case v of None \<Rightarrow> Inl (SQLAlchemyError ArgumentError none_operand) | Some x \<Rightarrow> Inr (Lt field x))"

definition column_gt :: "field_name \<Rightarrow> 'v option \<Rightarrow> exc + 'v clause" where
  "column_gt field v =
     (case v of None \<Rightarrow> Inl (SQLAlchemyError ArgumentError none_operand) | Some x \<Rightarrow> Inr (Gt field x))"

subsection \<open>The private statement builders of \<^verbatim>\<open>SQLAlchemyRepository\<close>\<close>

definition apply_limit_offset_pagination :: "nat \<Rightarrow> nat \<Rightarrow> 'v select \<Rightarrow> 'v select" where
  "apply_limit_offset_pagination limit offset statement =
     statement\<lparr>limit_clause := Some limit, offset_clause := Some offset\<rparr>"

definition filter_in_collection :: "field_name \<Rightarrow> 'v option list \<Rightarrow> 'v select \<Rightarrow> 'v select" where
  "filter_in_collection field_name values statement =
     (if values = [] then statement else add_where statement (In field_name values))"

text \<open>
  \<^verbatim>\<open>_filter_on_datetime_field\<close>. Both comparisons are made against \<open>before\<close>, as the source
  writes them.
\<close>

definition filter_on_datetime_field ::
  "field_name \<Rightarrow> 'v option \<Rightarrow> 'v option \<Rightarrow> 'v select \<Rightarrow> exc + 'v select" where
  "filter_on_datetime_field field_name before after statement =
     and_then
       (if before \<noteq> None
        then and_then (column_lt field_name before) (\<lambda>c. Inr (add_where statement c))
        else Inr statement)
       (\<lambda>statement.
          if after \<noteq> None
          then and_then (column_gt field_name before) (\<lambda>c. Inr (add_where statement c))
          else Inr statement)"

definition filter_select_by_kwargs ::
  "'v select \<Rightarrow> (field_name \<times> 'v option) list \<Rightarrow> 'v select" where
  "filter_select_by_kwargs statement kwargs =
     fold (\<lambda>(key, val) statement. add_where statement (Eq key val)) kwargs statement"

fun apply_filters :: "'v filter_types list \<Rightarrow> bool \<Rightarrow> 'v select \<Rightarrow> exc + 'v select" where
  "apply_filters [] apply_pagination statement = Inr statement"
| "apply_filters (flt # filters) apply_pagination statement =
     (case flt of
        LimitOffset limit offset \<Rightarrow>
          if apply_pagination
          then apply_filters filters apply_pagination
                 (apply_limit_offset_pagination limit offset statement)
          else apply_filters filters apply_pagination statement
      | BeforeAfter field_name before after \<Rightarrow>
          (case filter_on_datetime_field field_name before after statement of
             Inl e \<Rightarrow> Inl e
           | Inr statement' \<Rightarrow> apply_filters filters apply_pagination statement')
      | CollectionFilter field_name values \<Rightarrow>
          apply_filters filters apply_pagination
            (filter_in_collection field_name values statement)
      | UnexpectedFilter repr \<Rightarrow>
          Inl (StarliteSaqlalchemyError (''Unexpected filter: '' @ repr)))"

subsection \<open>Which rows a statement selects\<close>

text \<open>
  A row is selected when every criterion is true of it. A comparison with a \<^verbatim>\<open>NULL\<close>
  column is unknown, never true; only \<^verbatim>\<open>IS NULL\<close> is true of it.
\<close>

fun holds :: "('v::linorder) entity \<Rightarrow> 'v clause \<Rightarrow> bool" where
  "holds e (Lt field v) = (case getattr e field of None \<Rightarrow> False | Some x \<Rightarrow> x < v)"
| "holds e (Gt field v) = (case getattr e field of None \<Rightarrow> False | Some x \<Rightarrow> x > v)"
| "holds e (In field vs) = (case getattr e field of None \<Rightarrow> False | Some x \<Rightarrow> Some x \<in> set vs)"
| "holds e (Eq field v) = (getattr e field = v)"

definition matching :: "('v::linorder) select \<Rightarrow> 'v entity list \<Rightarrow> 'v entity list" where
  "matching statement rows = filter (\<lambda>e. list_all (holds e) (whereclause statement)) rows"

text \<open>\<^verbatim>\<open>OFFSET\<close>, then \<^verbatim>\<open>LIMIT\<close>, on the rows a statement produces.\<close>

definition paginate :: "'v select \<Rightarrow> 'a list \<Rightarrow> 'a list" where
  "paginate statement xs =
     (let ys = (case offset_clause statement of None \<Rightarrow> xs | Some k \<Rightarrow> drop k xs)
      in case limit_clause statement of None \<Rightarrow> ys | Some n \<Rightarrow> take n ys)"

section \<open>The unit of work\<close>

text \<open>
  The session, its objects and the statements it runs are SQLAlchemy's; they are modelled
  as far as the repository uses them.

  A mapped instance is a Python object: an identity and its current attribute values. An
  operation that changes an object in place returns the changed instance here.
\<close>

record 'v model =
  oid :: nat
  attrs :: "'v entity"

text \<open>
  The states in which a session holds an object: pending (added, not yet inserted),
  persistent, persistent with changed attributes (in \<^verbatim>\<open>session.dirty\<close>), marked for
  deletion, and deleted by a flush but still owned by the session.
\<close>

datatype status = Pending | Persistent | Modified | ToDelete | Deleted

text \<open>\<^verbatim>\<open>session.bind.dialect\<close>: the capability flags the bulk operations branch on.\<close>

record dialect =
  insert_executemany_returning :: bool
  update_executemany_returning :: bool
  delete_executemany_returning :: bool

text \<open>
  The \<^verbatim>\<open>AsyncSession\<close> with the table of the model behind it, as the transaction sees
  it: the rows, the objects the session tracks, the next unused object identity, and the
  values \<^verbatim>\<open>uuid4()\<close> and \<^verbatim>\<open>datetime.now()\<close> return at their successive calls (\<open>tick\<close>
  counts the calls made so far). The session is assumed to hold no unflushed change of
  the caller's when an operation queries it, so no autoflush is modelled, and a query
  builds a new object for every row it loads.
\<close>

record 'v session =
  table :: "'v entity list"
  tracked :: "(status \<times> 'v model) list"
  next_oid :: nat
  tick :: nat
  uuid4 :: "nat \<Rightarrow> 'v"
  now :: "nat \<Rightarrow> 'v"
  bind_dialect :: dialect

definition tracked_oids :: "'v session \<Rightarrow> nat list" where
  "tracked_oids s = map (\<lambda>(st, i). oid i) (tracked s)"

definition pk :: "'v entity \<Rightarrow> 'v option" where
  "pk e = getattr e id_attribute"

definition set_attr :: "'v entity \<Rightarrow> field_name \<Rightarrow> 'v \<Rightarrow> 'v entity" where
  "set_attr e key v =
     (case getattr e key of
        None \<Rightarrow> e @ [(key, v)]
      | Some _ \<Rightarrow> map (\<lambda>(k, x). if k = key then (k, v) else (k, x)) e)"

text \<open>Copying the attributes that \<open>src\<close> has onto \<open>dst\<close>.\<close>

definition overlay :: "'v entity \<Rightarrow> 'v entity \<Rightarrow> 'v entity" where
  "overlay dst src = fold (\<lambda>(key, v) e. set_attr e key v) src dst"

subsection \<open>Column defaults of \<^verbatim>\<open>orm.Base\<close> and the \<^verbatim>\<open>INSERT\<close> of one row\<close>

definition call_uuid4 :: "'v session \<Rightarrow> 'v \<times> 'v session" where
  "call_uuid4 s = (uuid4 s (tick s), s\<lparr>tick := Suc (tick s)\<rparr>)"

definition call_now :: "'v session \<Rightarrow> 'v \<times> 'v session" where
  "call_now s = (now s (tick s), s\<lparr>tick := Suc (tick s)\<rparr>)"

text \<open>A column default is called when the row to insert has no value for the column.\<close>

definition apply_default ::
  "field_name \<Rightarrow> ('v session \<Rightarrow> 'v \<times> 'v session) \<Rightarrow> 'v entity \<times> 'v session \<Rightarrow> 'v entity \<times> 'v session" where
  "apply_default column default_callable = (\<lambda>(e, s).
     case getattr e column of
       Some _ \<Rightarrow> (e, s)
     | None \<Rightarrow> (let (v, s') = default_callable s in (e @ [(column, v)], s')))"

text \<open>
  \<^verbatim>\<open>orm.Base\<close>: \<^verbatim>\<open>id\<close> defaults to \<^verbatim>\<open>uuid4\<close>, \<^verbatim>\<open>created\<close> and \<^verbatim>\<open>updated\<close> to \<^verbatim>\<open>datetime.now\<close>.
\<close>

definition insert_defaults :: "'v entity \<Rightarrow> 'v session \<Rightarrow> 'v entity \<times> 'v session" where
  "insert_defaults e s =
     apply_default ''updated'' call_now
       (apply_default ''created'' call_now
          (apply_default ''id'' call_uuid4 (e, s)))"

definition duplicate_key :: string where
  "duplicate_key = ''duplicate key value violates unique constraint''"

text \<open>The primary key is the one constraint of the table: a second row with a key is refused.\<close>

definition insert_row :: "'v entity \<Rightarrow> 'v session \<Rightarrow> exc + ('v entity \<times> 'v session)" where
  "insert_row e s =
     (let (row, s') = insert_defaults e s
      in if pk row \<in> set (map pk (table s'))
         then Inl (SQLAlchemyError IntegrityError duplicate_key)
         else Inr (row, s'\<lparr>table := table s' @ [row]\<rparr>))"

subsection \<open>\<^verbatim>\<open>add\<close>, \<^verbatim>\<open>merge\<close>, \<^verbatim>\<open>delete\<close>, \<^verbatim>\<open>expunge\<close>, \<^verbatim>\<open>refresh\<close>\<close>

definition session_add :: "'v model \<Rightarrow> 'v session \<Rightarrow> 'v session" where
  "session_add inst s = s\<lparr>tracked := tracked s @ [(Pending, inst)]\<rparr>"

text \<open>
  \<^verbatim>\<open>session.merge\<close>: the row with the primary key of \<open>model\<close> is loaded into a new persistent
  object and the attributes of \<open>model\<close> are set on it; with no such row a new pending
  object carries them. The object returned is the session's, never \<open>model\<close> itself.
\<close>

definition session_merge :: "'v model \<Rightarrow> 'v session \<Rightarrow> 'v model \<times> 'v session" where
  "session_merge model s =
     (case (if pk (attrs model) = None then None
            else find (\<lambda>row. pk row = pk (attrs model)) (table s)) of
        None \<Rightarrow>
          (let inst = \<lparr>oid = next_oid s, attrs = attrs model\<rparr>
           in (inst, s\<lparr>tracked := tracked s @ [(Pending, inst)],
                           next_oid := Suc (next_oid s)\<rparr>))
      | Some row \<Rightarrow>
          (let inst = \<lparr>oid = next_oid s, attrs = overlay row (attrs model)\<rparr>
           in (inst, s\<lparr>tracked := tracked s @ [(Modified, inst)],
                           next_oid := Suc (next_oid s)\<rparr>)))"

definition session_delete :: "'v model \<Rightarrow> 'v session \<Rightarrow> 'v session" where
  "session_delete inst s = s\<lparr>tracked := tracked s @ [(ToDelete, inst)]\<rparr>"

definition not_present :: string where
  "not_present = ''Instance is not present in this Session''"

definition session_expunge :: "'v model \<Rightarrow> 'v session \<Rightarrow> exc + 'v session" where
  "session_expunge inst s =
     (if oid inst \<in> set (tracked_oids s)
      then Inr (s\<lparr>tracked := filter (\<lambda>(st, i). oid i \<noteq> oid inst) (tracked s)\<rparr>)
      else Inl (SQLAlchemyError InvalidRequestError not_present))"

definition not_persistent :: string where
  "not_persistent = ''Instance is not persistent within this Session''"

definition could_not_refresh :: string where
  "could_not_refresh = ''Could not refresh instance''"

text \<open>
  \<^verbatim>\<open>session.refresh\<close>: the attributes of a persistent object are read again from its row.
\<close>

definition session_refresh :: "'v model \<Rightarrow> 'v session \<Rightarrow> exc + ('v model \<times> 'v session)" where
  "session_refresh inst s =
     (case find (\<lambda>(st, i). oid i = oid inst \<and> (st = Persistent \<or> st = Modified)) (tracked s) of
        None \<Rightarrow> Inl (SQLAlchemyError InvalidRequestError not_persistent)
      | Some (st, i) \<Rightarrow>
          (case find (\<lambda>row. pk row = pk (attrs i)) (table s) of
             None \<Rightarrow> Inl (SQLAlchemyError InvalidRequestError could_not_refresh)
           | Some row \<Rightarrow>
               Inr (i\<lparr>attrs := row\<rparr>,
                    s\<lparr>tracked := map (\<lambda>(st', j).
                                    if oid j = oid inst \<and> (st' = Persistent \<or> st' = Modified)
                                    then (Persistent, j\<lparr>attrs := row\<rparr>)
                                    else (st', j)) (tracked s)\<rparr>)))"

subsection \<open>\<^verbatim>\<open>flush\<close>\<close>

text \<open>
  \<^verbatim>\<open>touch_updated_timestamp\<close> of \<^verbatim>\<open>db/orm.py\<close>, the \<^verbatim>\<open>before_flush\<close> listener: every object
  of \<^verbatim>\<open>session.dirty\<close> gets \<^verbatim>\<open>updated = datetime.now()\<close>.
\<close>

fun touch_objects ::
  "(status \<times> 'v model) list \<Rightarrow> 'v session \<Rightarrow> (status \<times> 'v model) list \<times> 'v session" where
  "touch_objects [] s = ([], s)"
| "touch_objects ((st, inst) # objs) s =
     (if st = Modified
      then (case call_now s of (v, s') \<Rightarrow>
              (case touch_objects objs s' of (objs', s'') \<Rightarrow>
                 ((st, inst\<lparr>attrs := set_attr (attrs inst) ''updated'' v\<rparr>) # objs', s'')))
      else (case touch_objects objs s of (objs', s') \<Rightarrow> ((st, inst) # objs', s')))"

definition touch_updated_timestamp :: "'v session \<Rightarrow> 'v session" where
  "touch_updated_timestamp s =
     (case touch_objects (tracked s) s of (objs, s') \<Rightarrow> s'\<lparr>tracked := objs\<rparr>)"

text \<open>
  The flush proper, object by object: a pending object is inserted (the column defaults
  fill its missing attributes) and becomes persistent, a changed one updates its row,
  one marked for deletion loses its row.
\<close>

fun flush_objects ::
  "(status \<times> 'v model) list \<Rightarrow> 'v session \<Rightarrow> exc + ((status \<times> 'v model) list \<times> 'v session)" where
  "flush_objects [] s = Inr ([], s)"
| "flush_objects ((st, inst) # objs) s =
     (case st of
        Pending \<Rightarrow>
          (case insert_row (attrs inst) s of
             Inl e \<Rightarrow> Inl e
           | Inr (row, s') \<Rightarrow>
               (case flush_objects objs s' of
                  Inl e \<Rightarrow> Inl e
                | Inr (objs', s'') \<Rightarrow> Inr ((Persistent, inst\<lparr>attrs := row\<rparr>) # objs', s'')))
      | Modified \<Rightarrow>
          (case flush_objects objs
                  (s\<lparr>table := map (\<lambda>row. if pk row = pk (attrs inst) then attrs inst else row)
                                 (table s)\<rparr>) of
             Inl e \<Rightarrow> Inl e
           | Inr (objs', s') \<Rightarrow> Inr ((Persistent, inst) # objs', s'))
      | ToDelete \<Rightarrow>
          (case flush_objects objs
                  (s\<lparr>table := filter (\<lambda>row. pk row \<noteq> pk (attrs inst)) (table s)\<rparr>) of
             Inl e \<Rightarrow> Inl e
           | Inr (objs', s') \<Rightarrow> Inr ((Deleted, inst) # objs', s'))
      | Persistent \<Rightarrow>
          (case flush_objects objs s of
             Inl e \<Rightarrow> Inl e
           | Inr (objs', s') \<Rightarrow> Inr ((Persistent, inst) # objs', s'))
      | Deleted \<Rightarrow>
          (case flush_objects objs s of
             Inl e \<Rightarrow> Inl e
           | Inr (objs', s') \<Rightarrow> Inr ((Deleted, inst) # objs', s')))"

definition session_flush :: "'v session \<Rightarrow> exc + 'v session" where
  "session_flush s =
     (let s1 = touch_updated_timestamp s
      in case flush_objects (tracked s1) s1 of
           Inl e \<Rightarrow> Inl e
         | Inr (objs, s2) \<Rightarrow> Inr (s2\<lparr>tracked := objs\<rparr>))"

subsection \<open>Running statements\<close>

text \<open>The rows a query returns become persistent objects of the session.\<close>

primrec load :: "'v entity list \<Rightarrow> nat \<Rightarrow> 'v model list" where
  "load [] n = []"
| "load (row # rows) n = \<lparr>oid = n, attrs = row\<rparr> # load rows (Suc n)"

definition track_loaded :: "'v entity list \<Rightarrow> 'v session \<Rightarrow> 'v model list \<times> 'v session" where
  "track_loaded rows s =
     (let insts = load rows (next_oid s)
      in (insts, s\<lparr>tracked := tracked s @ map (Pair Persistent) insts,
                    next_oid := next_oid s + length rows\<rparr>))"

text \<open>\<^verbatim>\<open>_execute\<close> on a select of the entity: the selected rows, in table order.\<close>

definition execute :: "('v::linorder) select \<Rightarrow> 'v session \<Rightarrow> 'v model list \<times> 'v session" where
  "execute stmt s = track_loaded (paginate stmt (matching stmt (table s))) s"

text \<open>
  \<^verbatim>\<open>_execute\<close> on the statement of \<^verbatim>\<open>count\<close>, whose only column is \<^verbatim>\<open>count(id)\<close>: one row,
  the number of selected rows whose \<^verbatim>\<open>id\<close> is not \<^verbatim>\<open>NULL\<close>; \<^verbatim>\<open>LIMIT\<close> and \<^verbatim>\<open>OFFSET\<close> act on
  that one row.
\<close>

definition execute_count :: "('v::linorder) select \<Rightarrow> 'v session \<Rightarrow> nat list" where
  "execute_count stmt s =
     paginate stmt [length (filter (\<lambda>row. getattr row ''id'' \<noteq> None) (matching stmt (table s)))]"

text \<open>
  \<^verbatim>\<open>_execute\<close> on the statement of \<^verbatim>\<open>list_and_count\<close>, the entity with \<^verbatim>\<open>count(id) OVER ()\<close>:
  the window is the set of selected rows, before \<^verbatim>\<open>LIMIT\<close> and \<^verbatim>\<open>OFFSET\<close>.
\<close>

definition execute_over_count ::
  "('v::linorder) select \<Rightarrow> 'v session \<Rightarrow> ('v model \<times> nat) list \<times> 'v session" where
  "execute_over_count stmt s =
     (let rows = matching stmt (table s);
          count_value = length (filter (\<lambda>row. getattr row ''id'' \<noteq> None) rows)
      in case track_loaded (paginate stmt rows) s of
           (insts, s') \<Rightarrow> (map (\<lambda>inst. (inst, count_value)) insts, s'))"

definition multiple_rows :: string where
  "multiple_rows = ''Multiple rows were found when one or none was required''"

definition no_row :: string where
  "no_row = ''No row was found when one was required''"

definition multiple_rows_one :: string where
  "multiple_rows_one = ''Multiple rows were found when exactly one was required''"

fun scalar_one_or_none :: "'a list \<Rightarrow> exc + 'a option" where
  "scalar_one_or_none [] = Inr None"
| "scalar_one_or_none [x] = Inr (Some x)"
| "scalar_one_or_none (x # y # rest) = Inl (SQLAlchemyError MultipleResultsFound multiple_rows)"

fun scalar_one :: "'a list \<Rightarrow> exc + 'a" where
  "scalar_one [] = Inl (SQLAlchemyError NoResultFound no_row)"
| "scalar_one [x] = Inr x"
| "scalar_one (x # y # rest) = Inl (SQLAlchemyError MultipleResultsFound multiple_rows_one)"

text \<open>
  \<^verbatim>\<open>insert(model)\<close> run with a list of mappings: the rows are inserted one after the other
  and the first refused row ends the statement. An empty list inserts nothing.
\<close>

fun insert_rows :: "'v entity list \<Rightarrow> 'v session \<Rightarrow> exc + ('v entity list \<times> 'v session)" where
  "insert_rows [] s = Inr ([], s)"
| "insert_rows (datum # rest) s =
     (case insert_row datum s of
        Inl e \<Rightarrow> Inl e
      | Inr (row, s') \<Rightarrow>
          (case insert_rows rest s' of
             Inl e \<Rightarrow> Inl e
           | Inr (rows, s'') \<Rightarrow> Inr (row # rows, s'')))"

definition execute_insert :: "'v entity list \<Rightarrow> 'v session \<Rightarrow> exc + 'v session" where
  "execute_insert data s = and_then (insert_rows data s) (\<lambda>(rows, s'). Inr s')"

definition scalars_insert_returning ::
  "'v entity list \<Rightarrow> 'v session \<Rightarrow> exc + ('v model list \<times> 'v session)" where
  "scalars_insert_returning data s =
     and_then (insert_rows data s) (\<lambda>(rows, s'). Inr (track_loaded rows s'))"

definition missing_pk :: string where
  "missing_pk = ''No primary key value supplied''"

text \<open>
  \<^verbatim>\<open>update(model)\<close> run with a list of mappings, the bulk update by primary key: each
  mapping sets its values on the row that has its key.
\<close>

fun update_rows :: "'v entity list \<Rightarrow> 'v session \<Rightarrow> exc + ('v entity list \<times> 'v session)" where
  "update_rows [] s = Inr ([], s)"
| "update_rows (datum # rest) s =
     (case pk datum of
        None \<Rightarrow> Inl (SQLAlchemyError InvalidRequestError missing_pk)
      | Some k \<Rightarrow>
          (let s' = s\<lparr>table := map (\<lambda>row. if pk row = Some k then overlay row datum else row)
                                   (table s)\<rparr>
           in case update_rows rest s' of
                Inl e \<Rightarrow> Inl e
              | Inr (rows, s'') \<Rightarrow> Inr (filter (\<lambda>row. pk row = Some k) (table s') @ rows, s'')))"

definition execute_update :: "'v entity list \<Rightarrow> 'v session \<Rightarrow> exc + 'v session" where
  "execute_update data s = and_then (update_rows data s) (\<lambda>(rows, s'). Inr s')"

definition scalars_update_returning ::
  "'v entity list \<Rightarrow> 'v session \<Rightarrow> exc + ('v model list \<times> 'v session)" where
  "scalars_update_returning data s =
     and_then (update_rows data s) (\<lambda>(rows, s'). Inr (track_loaded rows s'))"

text \<open>\<^verbatim>\<open>delete(model).where(id.in_(item_ids))\<close>, without and with \<^verbatim>\<open>RETURNING\<close>.\<close>

definition execute_delete :: "('v::linorder) option list \<Rightarrow> 'v session \<Rightarrow> 'v session" where
  "execute_delete item_ids s =
     s\<lparr>table := filter (\<lambda>row. \<not> holds row (In id_attribute item_ids)) (table s)\<rparr>"

definition scalars_delete_returning ::
  "('v::linorder) option list \<Rightarrow> 'v session \<Rightarrow> 'v model list \<times> 'v session" where
  "scalars_delete_returning item_ids s =
     track_loaded (filter (\<lambda>row. holds row (In id_attribute item_ids)) (table s))
       (execute_delete item_ids s)"

section \<open>\<^verbatim>\<open>SQLAlchemyRepository\<close>\<close>

text \<open>
  The repository object: \<^verbatim>\<open>self.statement\<close>, the base select (\<^verbatim>\<open>base_select\<close>, or
  \<^verbatim>\<open>select(self.model_type)\<close>). \<^verbatim>\<open>self.session\<close> is the state every operation takes and
  returns.
\<close>

record 'v repository =
  statement :: "'v select"

text \<open>
  \<^verbatim>\<open>self.model_type(**kwargs)\<close>: a new object with the given attributes; an attribute given
  as \<^verbatim>\<open>None\<close> has no value.
\<close>

definition model_type :: "(field_name \<times> 'v option) list \<Rightarrow> 'v session \<Rightarrow> 'v model \<times> 'v session" where
  "model_type kwargs s =
     (\<lparr>oid = next_oid s,
       attrs = List.map_filter (\<lambda>(key, val). map_option (Pair key) val) kwargs\<rparr>,
      s\<lparr>next_oid := Suc (next_oid s)\<rparr>)"

text \<open>
  Modelled from the spec: \<^verbatim>\<open>to_dict\<close> of the model is not among the sources; the spec asks
  of an entity "a method to materialize itself as a plain key/value mapping".
\<close>

definition to_dict :: "'v model \<Rightarrow> 'v entity" where
  "to_dict v = attrs v"

text \<open>
  Modelled from the spec: \<^verbatim>\<open>check_not_found\<close> and \<^verbatim>\<open>get_id_attribute_value\<close> belong to
  \<^verbatim>\<open>AbstractRepository\<close> (\<^verbatim>\<open>repository/abc.py\<close>), which is not among the sources; the spec
  says of \<^verbatim>\<open>get\<close> and \<^verbatim>\<open>getOne\<close> "Fails with NotFoundError if absent", and of \<^verbatim>\<open>update\<close>
  that it "verifies existence via get(entity.id)".
\<close>

definition check_not_found :: "'a option \<Rightarrow> exc + 'a" where
  "check_not_found item_or_none =
     (case item_or_none of
        None \<Rightarrow> Inl (NotFoundError ''No item found when one was expected'')
      | Some item \<Rightarrow> Inr item)"

definition get_id_attribute_value :: "'v model \<Rightarrow> 'v option" where
  "get_id_attribute_value item = getattr (attrs item) id_attribute"

definition attach_to_session ::
  "'v model \<Rightarrow> string \<Rightarrow> 'v session \<Rightarrow> exc + ('v model \<times> 'v session)" where
  "attach_to_session model strategy s =
     (if strategy = ''add'' then Inr (model, session_add model s)
      else if strategy = ''merge'' then Inr (session_merge model s)
      else Inl (ValueError ''Unexpected value for `strategy`, must be `'add'` or `'merge'`''))"

text \<open>\<^verbatim>\<open>for instance in instances: self.session.expunge(instance)\<close>\<close>

fun expunge_all :: "'v model list \<Rightarrow> 'v session \<Rightarrow> exc + 'v session" where
  "expunge_all [] s = Inr s"
| "expunge_all (inst # insts) s =
     (case session_expunge inst s of
        Inl e \<Rightarrow> Inl e
      | Inr s' \<Rightarrow> expunge_all insts s')"

definition get ::
  "('v::linorder) repository \<Rightarrow> 'v option \<Rightarrow> 'v session \<Rightarrow> exc + ('v model \<times> 'v session)" where
  "get self item_id s =
     wrap_sqlalchemy_exception
       (let stmt = filter_select_by_kwargs (statement self) [(id_attribute, item_id)]
        in case execute stmt s of (result, s1) \<Rightarrow>
             and_then (scalar_one_or_none result) (\<lambda>inst.
             and_then (check_not_found inst) (\<lambda>inst.
             and_then (session_expunge inst s1) (\<lambda>s2.
             Inr (inst, s2)))))"

definition get_one ::
  "('v::linorder) repository \<Rightarrow> (field_name \<times> 'v option) list \<Rightarrow> 'v session
     \<Rightarrow> exc + ('v model \<times> 'v session)" where
  "get_one self kwargs s =
     wrap_sqlalchemy_exception
       (let stmt = filter_select_by_kwargs (statement self) kwargs
        in case execute stmt s of (result, s1) \<Rightarrow>
             and_then (scalar_one_or_none result) (\<lambda>inst.
             and_then (check_not_found inst) (\<lambda>inst.
             and_then (session_expunge inst s1) (\<lambda>s2.
             Inr (inst, s2)))))"

definition get_one_or_none ::
  "('v::linorder) repository \<Rightarrow> (field_name \<times> 'v option) list \<Rightarrow> 'v session
     \<Rightarrow> exc + ('v model option \<times> 'v session)" where
  "get_one_or_none self kwargs s =
     wrap_sqlalchemy_exception
       (let stmt = filter_select_by_kwargs (statement self) kwargs
        in case execute stmt s of (result, s1) \<Rightarrow>
             and_then (scalar_one_or_none result) (\<lambda>inst.
             case inst of
               Some i \<Rightarrow> and_then (session_expunge i s1) (\<lambda>s2. Inr (Some i, s2))
             | None \<Rightarrow> Inr (None, s1)))"

definition add :: "'v repository \<Rightarrow> 'v model \<Rightarrow> 'v session \<Rightarrow> exc + ('v model \<times> 'v session)" where
  "add self data s =
     wrap_sqlalchemy_exception
       (and_then (attach_to_session data ''add'' s) (\<lambda>(inst, s1).
        and_then (session_flush s1) (\<lambda>s2.
        and_then (session_refresh inst s2) (\<lambda>(inst, s3).
        and_then (session_expunge inst s3) (\<lambda>s4.
        Inr (inst, s4))))))"

definition get_or_create ::
  "('v::linorder) repository \<Rightarrow> (field_name \<times> 'v option) list \<Rightarrow> 'v session
     \<Rightarrow> exc + (('v model \<times> bool) \<times> 'v session)" where
  "get_or_create self kwargs s =
     and_then (get_one_or_none self kwargs s) (\<lambda>(existing, s1).
       case existing of
         Some found \<Rightarrow> Inr ((found, False), s1)
       | None \<Rightarrow>
           (case model_type kwargs s1 of (new, s2) \<Rightarrow>
              and_then (add self new s2) (\<lambda>(inst, s3). Inr ((inst, True), s3))))"

definition count ::
  "('v::linorder) repository \<Rightarrow> 'v filter_types list \<Rightarrow> (field_name \<times> 'v option) list
     \<Rightarrow> 'v session \<Rightarrow> exc + nat" where
  "count self filters kwargs s =
     and_then (apply_filters filters False (statement self)) (\<lambda>stmt.
       let stmt = filter_select_by_kwargs stmt kwargs
       in scalar_one (execute_count stmt s))"

definition list ::
  "('v::linorder) repository \<Rightarrow> 'v filter_types list \<Rightarrow> (field_name \<times> 'v option) list
     \<Rightarrow> 'v session \<Rightarrow> exc + ('v model list \<times> 'v session)" where
  "list self filters kwargs s =
     and_then (apply_filters filters True (statement self)) (\<lambda>stmt.
       let stmt = filter_select_by_kwargs stmt kwargs
       in wrap_sqlalchemy_exception
            (case execute stmt s of (insts, s1) \<Rightarrow>
               and_then (expunge_all insts s1) (\<lambda>s2. Inr (insts, s2))))"

text \<open>
  The loop of \<^verbatim>\<open>list_and_count\<close> over \<^verbatim>\<open>enumerate(result)\<close>: \<open>i\<close> is the index, \<open>insts\<close> and
  \<open>cnt\<close> are the accumulators \<^verbatim>\<open>instances\<close> and \<^verbatim>\<open>count\<close>.
\<close>

fun list_and_count_loop ::
  "nat \<Rightarrow> ('v model \<times> nat) list \<Rightarrow> 'v model list \<Rightarrow> nat \<Rightarrow> 'v session
     \<Rightarrow> exc + (('v model list \<times> nat) \<times> 'v session)" where
  "list_and_count_loop i [] insts cnt s = Inr ((insts, cnt), s)"
| "list_and_count_loop i ((inst, count_value) # result) insts cnt s =
     (case session_expunge inst s of
        Inl e \<Rightarrow> Inl e
      | Inr s' \<Rightarrow>
          list_and_count_loop (Suc i) result (insts @ [inst])
            (if i = 0 then count_value else cnt) s')"

definition list_and_count ::
  "('v::linorder) repository \<Rightarrow> 'v filter_types list \<Rightarrow> (field_name \<times> 'v option) list
     \<Rightarrow> 'v session \<Rightarrow> exc + (('v model list \<times> nat) \<times> 'v session)" where
  "list_and_count self filters kwargs s =
     and_then (apply_filters filters True (statement self)) (\<lambda>stmt.
       let stmt = filter_select_by_kwargs stmt kwargs
       in wrap_sqlalchemy_exception
            (case execute_over_count stmt s of (result, s1) \<Rightarrow>
               list_and_count_loop 0 result [] 0 s1))"

text \<open>
  The loop of \<^verbatim>\<open>add_many\<close> that gives every mapping without an identifier a new
  \<^verbatim>\<open>uuid4()\<close> and collects the identifiers.
\<close>

fun assign_primary_keys ::
  "'v entity list \<Rightarrow> 'v session \<Rightarrow> ('v entity list \<times> 'v option list) \<times> 'v session" where
  "assign_primary_keys [] s = (([], []), s)"
| "assign_primary_keys (datum # rest) s =
     (case (if getattr datum id_attribute = None
            then (case call_uuid4 s of (v, s') \<Rightarrow> (set_attr datum id_attribute v, s'))
            else (datum, s)) of
        (datum', s') \<Rightarrow>
          (case assign_primary_keys rest s' of
             ((data, new_primary_keys), s'') \<Rightarrow>
               ((datum' # data, getattr datum' id_attribute # new_primary_keys), s'')))"

text \<open>
  \<^verbatim>\<open>add_many\<close> and \<^verbatim>\<open>update_many\<close> are given model instances here, each turned into its
  mapping by \<^verbatim>\<open>to_dict\<close>.
\<close>

definition add_many ::
  "('v::linorder) repository \<Rightarrow> 'v model list \<Rightarrow> 'v session
     \<Rightarrow> exc + ('v model list \<times> 'v session)" where
  "add_many self data s =
     (let data_to_insert = map to_dict data
      in wrap_sqlalchemy_exception
           (if insert_executemany_returning (bind_dialect s)
            then and_then (scalars_insert_returning data_to_insert s) (\<lambda>(insts, s1).
                 and_then (expunge_all insts s1) (\<lambda>s2.
                 Inr (insts, s2)))
            else (case assign_primary_keys data_to_insert s of
                    ((data_to_insert, new_primary_keys), s1) \<Rightarrow>
                      and_then (execute_insert data_to_insert s1) (\<lambda>s2.
                      list self [CollectionFilter id_attribute new_primary_keys] [] s2))))"

definition delete ::
  "('v::linorder) repository \<Rightarrow> 'v option \<Rightarrow> 'v session \<Rightarrow> exc + ('v model \<times> 'v session)" where
  "delete self item_id s =
     wrap_sqlalchemy_exception
       (and_then (get self item_id s) (\<lambda>(inst, s1).
        and_then (session_flush (session_delete inst s1)) (\<lambda>s2.
        and_then (session_expunge inst s2) (\<lambda>s3.
        Inr (inst, s3)))))"

definition delete_many ::
  "('v::linorder) repository \<Rightarrow> 'v option list \<Rightarrow> 'v session
     \<Rightarrow> exc + ('v model list \<times> 'v session)" where
  "delete_many self item_ids s =
     wrap_sqlalchemy_exception
       (if delete_executemany_returning (bind_dialect s)
        then (case scalars_delete_returning item_ids s of (insts, s1) \<Rightarrow>
                and_then (session_flush s1) (\<lambda>s2.
                and_then (expunge_all insts s2) (\<lambda>s3.
                Inr (insts, s3))))
        else and_then (list self [CollectionFilter id_attribute item_ids] [] s) (\<lambda>(insts, s1).
             and_then (session_flush (execute_delete item_ids s1)) (\<lambda>s2.
             Inr (insts, s2))))"

definition update ::
  "('v::linorder) repository \<Rightarrow> 'v model \<Rightarrow> 'v session \<Rightarrow> exc + ('v model \<times> 'v session)" where
  "update self data s =
     wrap_sqlalchemy_exception
       (let item_id = get_id_attribute_value data
        in and_then (get self item_id s) (\<lambda>(found, s1).
           and_then (attach_to_session data ''merge'' s1) (\<lambda>(inst, s2).
           and_then (session_flush s2) (\<lambda>s3.
           and_then (session_refresh inst s3) (\<lambda>(inst, s4).
           and_then (session_expunge inst s4) (\<lambda>s5.
           Inr (inst, s5)))))))"

definition update_many ::
  "('v::linorder) repository \<Rightarrow> 'v model list \<Rightarrow> 'v session
     \<Rightarrow> exc + ('v model list \<times> 'v session)" where
  "update_many self data s =
     (let data_to_update = map to_dict data
      in wrap_sqlalchemy_exception
           (if update_executemany_returning (bind_dialect s)
            then and_then (scalars_update_returning data_to_update s) (\<lambda>(insts, s1).
                 and_then (session_flush s1) (\<lambda>s2.
                 and_then (expunge_all insts s2) (\<lambda>s3.
                 Inr (insts, s3))))
            else (let updated_primary_keys = map (\<lambda>datum. getattr datum ''id'') data_to_update
                  in and_then (execute_update data_to_update s) (\<lambda>s1.
                     and_then (session_flush s1) (\<lambda>s2.
                     list self [CollectionFilter ''id'' updated_primary_keys] [] s2)))))"

definition upsert :: "'v repository \<Rightarrow> 'v model \<Rightarrow> 'v session \<Rightarrow> exc + ('v model \<times> 'v session)" where
  "upsert self data s =
     wrap_sqlalchemy_exception
       (and_then (attach_to_session data ''merge'' s) (\<lambda>(inst, s1).
        and_then (session_flush s1) (\<lambda>s2.
        and_then (session_refresh inst s2) (\<lambda>(inst, s3).
        and_then (session_expunge inst s3) (\<lambda>s4.
        Inr (inst, s4))))))"

section \<open>\<^verbatim>\<open>SQLAlchemyRepositorySlugMixin\<close>\<close>

definition get_by_slug ::
  "string repository \<Rightarrow> string \<Rightarrow> string session \<Rightarrow> exc + (string model option \<times> string session)" where
  "get_by_slug self slug s = get_one_or_none self [(''slug'', Some slug)] s"




text \<open>
  \<^verbatim>\<open>random.choices(population, k=k)\<close>: \<open>k\<close> draws with replacement. \<open>rnd i\<close> is the number
  the generator gives at the \<open>i\<close>-th draw, brought into the range of the indices as
  \<^verbatim>\<open>floor(random() * n)\<close> is.
\<close>

definition choices :: "(nat \<Rightarrow> nat) \<Rightarrow> 'a list \<Rightarrow> nat \<Rightarrow> 'a list" where
  "choices rnd population k = map (\<lambda>i. population ! (rnd i mod length population)) [0..<k]"


section \<open>Notions used to state the properties\<close>

text \<open>A filter list without its \<^verbatim>\<open>LimitOffset\<close> filters.\<close>

definition without_pagination :: "'v filter_types list \<Rightarrow> 'v filter_types list" where
  "without_pagination filters =
     filter (\<lambda>f. case f of LimitOffset limit offset \<Rightarrow> False | _ \<Rightarrow> True) filters"

text \<open>An object is detached when the session does not track it.\<close>

definition detached :: "'v session \<Rightarrow> 'v model \<Rightarrow> bool" where
  "detached s inst = (oid inst \<notin> set (tracked_oids s))"

text \<open>A table of three rows, behind a session that tracks nothing, on a dialect without
  \<^verbatim>\<open>RETURNING\<close> for bulk statements.\<close>

definition example_dialect :: dialect where
  "example_dialect =
     \<lparr>insert_executemany_returning = False, update_executemany_returning = False,
      delete_executemany_returning = False\<rparr>"

definition example_session :: "int session" where
  "example_session =
     \<lparr>table = [[(''id'', 1), (''created'', 5)], [(''id'', 2), (''created'', 7)],
               [(''id'', 3), (''created'', 9)]],
      tracked = [], next_oid = 0, tick = 0,
      uuid4 = (\<lambda>n. 100 + int n), now = (\<lambda>n. 1000 + int n),
      bind_dialect = example_dialect\<rparr>"

definition example_repository :: "int repository" where
  "example_repository = \<lparr>statement = select_model\<rparr>"

text \<open>The same table on a dialect with \<^verbatim>\<open>RETURNING\<close> for every bulk statement.\<close>

definition returning_session :: "int session" where
  "returning_session =
     example_session\<lparr>bind_dialect :=
       \<lparr>insert_executemany_returning = True, update_executemany_returning = True,
        delete_executemany_returning = True\<rparr>\<rparr>"





section \<open>Auxiliary lemmas\<close>

lemmas builder_defs = filter_on_datetime_field_def column_lt_def column_gt_def add_where_def
  and_then_def filter_in_collection_def apply_limit_offset_pagination_def
  filter_select_by_kwargs_def select_model_def

lemmas run_defs = execute_def execute_count_def execute_over_count_def track_loaded_def
  paginate_def matching_def getattr_def session_expunge_def tracked_oids_def

subsection \<open>Statements and listings\<close>

lemma and_then_simps [simp]:
  "and_then (Inl e) f = Inl e"
  "and_then (Inr x) f = f x"
  by (simp_all add: and_then_def)

lemma apply_filters_without_pagination:
  "apply_filters filters False stmt = apply_filters (without_pagination filters) True stmt"
proof (induction filters arbitrary: stmt)
  case Nil
  show ?case by (simp add: without_pagination_def)
next
  case (Cons f fs)
  then show ?case
    by (cases f) (simp_all add: without_pagination_def split: sum.splits)
qed

lemma filter_on_datetime_field_pagination:
  "filter_on_datetime_field field_name before after stmt = Inr stmt' \<Longrightarrow>
     limit_clause stmt' = limit_clause stmt \<and> offset_clause stmt' = offset_clause stmt"
  by (auto simp: filter_on_datetime_field_def column_lt_def column_gt_def add_where_def
      and_then_def split: if_splits option.splits)

lemma filter_in_collection_pagination [simp]:
  "limit_clause (filter_in_collection field_name vs stmt) = limit_clause stmt"
  "offset_clause (filter_in_collection field_name vs stmt) = offset_clause stmt"
  by (simp_all add: filter_in_collection_def add_where_def)

lemma apply_filters_False_pagination:
  "apply_filters filters False stmt = Inr stmt' \<Longrightarrow>
     limit_clause stmt' = limit_clause stmt \<and> offset_clause stmt' = offset_clause stmt"
proof (induction filters arbitrary: stmt)
  case Nil
  then show ?case by simp
next
  case (Cons f fs)
  show ?case
  proof (cases f)
    case (LimitOffset l k)
    with Cons show ?thesis by simp
  next
    case (BeforeAfter fn b a)
    with Cons.prems obtain st1 where
      1: "filter_on_datetime_field fn b a stmt = Inr st1" and
      2: "apply_filters fs False st1 = Inr stmt'"
      by (auto split: sum.splits)
    from Cons.IH [OF 2] filter_on_datetime_field_pagination [OF 1] show ?thesis by simp
  next
    case (CollectionFilter fn vs)
    with Cons.prems have "apply_filters fs False (filter_in_collection fn vs stmt) = Inr stmt'"
      by simp
    from Cons.IH [OF this] show ?thesis by simp
  next
    case (UnexpectedFilter r)
    with Cons.prems show ?thesis by simp
  qed
qed

lemma filter_select_by_kwargs_pagination [simp]:
  "limit_clause (filter_select_by_kwargs stmt kwargs) = limit_clause stmt"
  "offset_clause (filter_select_by_kwargs stmt kwargs) = offset_clause stmt"
  unfolding filter_select_by_kwargs_def
  by (induction kwargs arbitrary: stmt) (auto simp: add_where_def)

lemma paginate_unlimited:
  "limit_clause stmt = None \<Longrightarrow> offset_clause stmt = None \<Longrightarrow> paginate stmt xs = xs"
  by (simp add: paginate_def)

lemma length_load [simp]: "length (load rows n) = length rows"
  by (induction rows arbitrary: n) simp_all

lemma map_attrs_load [simp]: "map attrs (load rows n) = rows"
  by (induction rows arbitrary: n) simp_all

lemma map_oid_load [simp]: "map oid (load rows n) = [n..<n + length rows]"
  by (induction rows arbitrary: n) (simp_all add: upt_rec)

lemma expunge_all_distinct:
  "distinct (map oid insts) \<Longrightarrow> set (map oid insts) \<subseteq> set (tracked_oids s) \<Longrightarrow>
     expunge_all insts s =
       Inr (s\<lparr>tracked := filter (\<lambda>(st, i). oid i \<notin> set (map oid insts)) (tracked s)\<rparr>)"
proof (induction insts arbitrary: s)
  case Nil
  then show ?case by simp
next
  case (Cons inst insts)
  let ?s1 = "s\<lparr>tracked := filter (\<lambda>(st, i). oid i \<noteq> oid inst) (tracked s)\<rparr>"
  from Cons.prems have 1: "session_expunge inst s = Inr ?s1"
    by (simp add: session_expunge_def)
  have "tracked_oids ?s1 = filter (\<lambda>k. k \<noteq> oid inst) (tracked_oids s)"
    by (simp add: tracked_oids_def filter_map comp_def case_prod_unfold)
  moreover from Cons.prems have "oid inst \<notin> set (map oid insts)" by simp
  ultimately have 2: "set (map oid insts) \<subseteq> set (tracked_oids ?s1)"
    using Cons.prems(2) by (simp add: subset_iff) blast
  from Cons.prems have 3: "distinct (map oid insts)" by simp
  have "expunge_all (inst # insts) s = expunge_all insts ?s1"
    using 1 by simp
  also have "\<dots> = Inr (?s1\<lparr>tracked := filter (\<lambda>(st, i). oid i \<notin> set (map oid insts)) (tracked ?s1)\<rparr>)"
    by (rule Cons.IH [OF 3 2])
  also have "\<dots> = Inr (s\<lparr>tracked := filter (\<lambda>(st, i). oid i \<notin> set (map oid (inst # insts))) (tracked s)\<rparr>)"
    by (simp add: case_prod_unfold)
  finally show ?case .
qed

lemma execute_expunge_all:
  "execute stmt s = (insts, s1) \<Longrightarrow>
     expunge_all insts s1 =
       Inr (s1\<lparr>tracked := filter (\<lambda>(st, i). oid i \<notin> set (map oid insts)) (tracked s1)\<rparr>)
     \<and> map attrs insts = paginate stmt (matching stmt (table s))"
proof -
  assume "execute stmt s = (insts, s1)"
  then have i: "insts = load (paginate stmt (matching stmt (table s))) (next_oid s)"
    and t: "tracked s1 = tracked s @ map (Pair Persistent) insts"
    by (auto simp: execute_def track_loaded_def Let_def)
  from i have "distinct (map oid insts)" by simp
  moreover from t have "set (map oid insts) \<subseteq> set (tracked_oids s1)"
    by (auto simp: tracked_oids_def image_iff)
  ultimately show ?thesis using i by (simp add: expunge_all_distinct)
qed

lemma list_unpaginated:
  assumes "apply_filters filters True (statement self) = Inr stmt"
  shows "\<exists>insts s'. list self filters kwargs s = Inr (insts, s')
     \<and> map attrs insts = paginate (filter_select_by_kwargs stmt kwargs)
          (matching (filter_select_by_kwargs stmt kwargs) (table s))"
proof -
  obtain insts s1 where e: "execute (filter_select_by_kwargs stmt kwargs) s = (insts, s1)"
    by (cases "execute (filter_select_by_kwargs stmt kwargs) s")
  from execute_expunge_all [OF e] assms e show ?thesis
    by (simp add: list_def)
qed

subsection \<open>Flushing, and operations on a session that tracks nothing\<close>

lemma tracked_Nil_update [simp]: "tracked s = [] \<Longrightarrow> s\<lparr>tracked := []\<rparr> = s"
  by (cases s) simp







lemma matching_select_model [simp]: "matching select_model rows = rows"
  by (simp add: matching_def select_model_def)

lemma paginate_select_model [simp]: "paginate select_model xs = xs"
  by (simp add: paginate_def select_model_def)

lemma matching_in [simp]:
  "matching (add_where select_model c) rows = filter (\<lambda>row. holds row c) rows"
  by (simp add: matching_def select_model_def add_where_def)

lemma paginate_add_where [simp]: "paginate (add_where stmt c) xs = paginate stmt xs"
  by (simp add: paginate_def add_where_def)

lemma filter_select_by_kwargs_Nil [simp]: "filter_select_by_kwargs stmt [] = stmt"
  by (simp add: filter_select_by_kwargs_def)

lemma holds_In_Nil [simp]: "holds row (In field []) = False"
  by (simp split: option.splits)

lemma execute_delete_Nil [simp]: "execute_delete [] s = s"
  by (simp add: execute_delete_def holds_In_Nil del: holds.simps)






subsection \<open>Detachment\<close>

lemma wrap_InrD: "wrap_sqlalchemy_exception m = Inr y \<Longrightarrow> m = Inr y"
  by (induction m rule: wrap_sqlalchemy_exception.induct) simp_all

lemma and_then_InrE:
  assumes "and_then m f = Inr y"
  obtains x where "m = Inr x" and "f x = Inr y"
  using assms by (cases m) simp_all

lemma session_expunge_detached:
  assumes "session_expunge inst s = Inr s'"
  shows "detached s' inst" and "set (tracked_oids s') \<subseteq> set (tracked_oids s)"
  using assms by (auto simp: session_expunge_def detached_def tracked_oids_def split: if_splits)

lemma detached_mono:
  "detached s inst \<Longrightarrow> set (tracked_oids s') \<subseteq> set (tracked_oids s) \<Longrightarrow> detached s' inst"
  by (auto simp: detached_def)

lemma expunge_all_detached:
  "expunge_all insts s = Inr s' \<Longrightarrow>
     list_all (detached s') insts \<and> set (tracked_oids s') \<subseteq> set (tracked_oids s)"
proof (induction insts arbitrary: s)
  case Nil
  then show ?case by simp
next
  case (Cons inst insts)
  from Cons.prems obtain s1 where
    1: "session_expunge inst s = Inr s1" and 2: "expunge_all insts s1 = Inr s'"
    by (auto split: sum.splits)
  from Cons.IH [OF 2] session_expunge_detached [OF 1] show ?case
    by (auto intro: detached_mono)
qed

lemma list_and_count_loop_detached:
  "list_and_count_loop i result acc cnt s = Inr ((insts, n), s') \<Longrightarrow>
     list_all (detached s) acc \<Longrightarrow> list_all (detached s') insts"
proof (induction result arbitrary: i acc cnt s)
  case Nil
  then show ?case by simp
next
  case (Cons row result)
  obtain inst count_value where row: "row = (inst, count_value)" by (cases row)
  from Cons.prems(1) row obtain s1 where
    1: "session_expunge inst s = Inr s1" and
    2: "list_and_count_loop (Suc i) result (acc @ [inst])
          (if i = 0 then count_value else cnt) s1 = Inr ((insts, n), s')"
    by (auto split: sum.splits)
  from session_expunge_detached [OF 1] Cons.prems(2)
  have "list_all (detached s1) (acc @ [inst])"
    by (auto simp: list_all_iff intro: detached_mono)
  from Cons.IH [OF 2 this] show ?case .
qed

lemma list_and_count_loop_detached_start:
  "list_and_count_loop 0 result [] 0 s = Inr ((insts, n), s') \<Longrightarrow> list_all (detached s') insts"
  by (drule list_and_count_loop_detached) simp_all

lemma touch_objects_oids:
  "touch_objects objs s = (objs', s') \<Longrightarrow>
     map (\<lambda>(st, i). oid i) objs' = map (\<lambda>(st, i). oid i) objs"
  by (induction objs arbitrary: s objs' s')
    (auto simp: call_now_def split: if_splits prod.splits)

lemma flush_objects_oids:
  "flush_objects objs s = Inr (objs', s') \<Longrightarrow>
     map (\<lambda>(st, i). oid i) objs' = map (\<lambda>(st, i). oid i) objs"
  by (induction objs arbitrary: s objs' s')
    (auto split: status.splits sum.splits prod.splits)

lemma session_flush_oids:
  assumes "session_flush s = Inr s'"
  shows "tracked_oids s' = tracked_oids s"
proof -
  obtain objs1 s1 where t: "touch_objects (tracked s) s = (objs1, s1)"
    by (cases "touch_objects (tracked s) s")
  with assms obtain objs2 s2 where
    f: "flush_objects objs1 (s1\<lparr>tracked := objs1\<rparr>) = Inr (objs2, s2)" and
    s': "s' = s2\<lparr>tracked := objs2\<rparr>"
    by (auto simp: session_flush_def touch_updated_timestamp_def Let_def split: sum.splits)
  from touch_objects_oids [OF t] flush_objects_oids [OF f] s' show ?thesis
    by (simp add: tracked_oids_def)
qed

lemma get_detached:
  "get self item_id s = Inr (inst, s') \<Longrightarrow> detached s' inst"
  unfolding get_def Let_def
  by (auto dest!: wrap_InrD elim!: and_then_InrE split: prod.splits
      dest: session_expunge_detached(1))

lemma get_one_detached:
  "get_one self kwargs s = Inr (inst, s') \<Longrightarrow> detached s' inst"
  unfolding get_one_def Let_def
  by (auto dest!: wrap_InrD elim!: and_then_InrE split: prod.splits
      dest: session_expunge_detached(1))

lemma get_one_or_none_detached:
  "get_one_or_none self kwargs s = Inr (Some inst, s') \<Longrightarrow> detached s' inst"
  unfolding get_one_or_none_def Let_def
  by (auto dest!: wrap_InrD elim!: and_then_InrE split: prod.splits option.splits
      dest: session_expunge_detached(1))

lemma add_detached:
  "add self data s = Inr (inst, s') \<Longrightarrow> detached s' inst"
  unfolding add_def
  by (auto dest!: wrap_InrD elim!: and_then_InrE split: prod.splits
      dest: session_expunge_detached(1))

lemma upsert_detached:
  "upsert self data s = Inr (inst, s') \<Longrightarrow> detached s' inst"
  unfolding upsert_def
  by (auto dest!: wrap_InrD elim!: and_then_InrE split: prod.splits
      dest: session_expunge_detached(1))

lemma update_detached:
  "update self data s = Inr (inst, s') \<Longrightarrow> detached s' inst"
  unfolding update_def Let_def
  by (auto dest!: wrap_InrD elim!: and_then_InrE split: prod.splits
      dest: session_expunge_detached(1))

lemma get_or_create_detached:
  "get_or_create self kwargs s = Inr ((inst, created), s') \<Longrightarrow> detached s' inst"
  unfolding get_or_create_def
  by (auto elim!: and_then_InrE split: prod.splits option.splits
      dest: get_one_or_none_detached add_detached)

lemma list_detached:
  "list self filters kwargs s = Inr (insts, s') \<Longrightarrow> list_all (detached s') insts"
  unfolding list_def Let_def
  by (auto dest!: wrap_InrD elim!: and_then_InrE split: prod.splits
      dest: expunge_all_detached)

lemma list_and_count_detached:
  "list_and_count self filters kwargs s = Inr ((insts, n), s') \<Longrightarrow> list_all (detached s') insts"
  unfolding list_and_count_def Let_def
  by (auto dest!: wrap_InrD elim!: and_then_InrE split: prod.splits
      dest: list_and_count_loop_detached_start)

lemma add_many_detached:
  "add_many self data s = Inr (insts, s') \<Longrightarrow> list_all (detached s') insts"
  unfolding add_many_def Let_def
  by (auto dest!: wrap_InrD elim!: and_then_InrE split: prod.splits if_splits
      dest: expunge_all_detached list_detached)

lemma update_many_detached:
  "update_many self data s = Inr (insts, s') \<Longrightarrow> list_all (detached s') insts"
  unfolding update_many_def Let_def
  by (auto dest!: wrap_InrD elim!: and_then_InrE split: prod.splits if_splits
      dest: expunge_all_detached list_detached)

lemma delete_detached:
  "delete self item_id s = Inr (inst, s') \<Longrightarrow> detached s' inst"
  unfolding delete_def
  by (auto dest!: wrap_InrD elim!: and_then_InrE split: prod.splits
      dest: session_expunge_detached(1))

lemma delete_many_detached:
  assumes "delete_many self item_ids s = Inr (insts, s')"
  shows "list_all (detached s') insts"
proof (cases "delete_executemany_returning (bind_dialect s)")
  case True
  with assms show ?thesis
    unfolding delete_many_def
    by (auto dest!: wrap_InrD elim!: and_then_InrE split: prod.splits
        dest: expunge_all_detached)
next
  case False
  with assms obtain s1 where
    l: "list self [CollectionFilter id_attribute item_ids] [] s = Inr (insts, s1)" and
    f: "session_flush (execute_delete item_ids s1) = Inr s'"
    unfolding delete_many_def
    by (auto dest!: wrap_InrD elim!: and_then_InrE split: prod.splits)
  from session_flush_oids [OF f] have "tracked_oids s' = tracked_oids s1"
    by (simp add: tracked_oids_def execute_delete_def)
  with list_detached [OF l] show ?thesis
    by (simp add: detached_def list_all_iff)
qed




lemma not_isl_pairE:
  assumes "\<not> isl m"
  obtains x s' where "m = Inr (x, s')"
  using assms by (cases m) auto

lemma found_pairE:
  assumes "case m of Inl e \<Rightarrow> False | Inr (None, s') \<Rightarrow> False | Inr (Some i, s') \<Rightarrow> True"
  obtains i s' where "m = Inr (Some i, s')"
  using assms by (cases m) (auto split: option.splits)

subsection \<open>Lookups that find nothing, and random choices\<close>

lemma track_loaded_Nil [simp]: "track_loaded [] s = ([], s)"
  by (simp add: track_loaded_def)

lemma paginate_Nil [simp]: "paginate stmt [] = []"
  by (simp add: paginate_def split: option.splits)


lemma choices_length [simp]: "length (choices rnd population k) = k"
  by (simp add: choices_def)


subsection \<open>Adding a new object\<close>









section \<open>Properties of the repository\<close>

subsection \<open>The exception translation boundary\<close>

text \<open>
  Claim C4. A block that raises \<^verbatim>\<open>IntegrityError\<close> (a uniqueness or constraint violation)
  leaves the boundary as \<^verbatim>\<open>ConflictError\<close>; a block that raises any other
  \<^verbatim>\<open>SQLAlchemyError\<close> leaves it as \<^verbatim>\<open>StarliteSaqlalchemyError\<close> whose message ends with the
  original message; the result of a block that raises nothing is passed through
  unchanged.
\<close>

theorem wrap_sqlalchemy_exception_contract:
  "wrap_sqlalchemy_exception (Inl (SQLAlchemyError cls msg) :: exc + 'a) =
     (if cls = IntegrityError then Inl ConflictError
      else Inl (StarliteSaqlalchemyError (''An exception occurred: '' @ msg)))
   \<and> wrap_sqlalchemy_exception (Inr x :: exc + 'a) = Inr x"
  by (cases cls) simp_all

subsection \<open>Filters\<close>

text \<open>
  Claim C6. A \<^verbatim>\<open>CollectionFilter\<close> with no values leaves the statement as it is, so a
  listing with it returns what the listing without it returns; with at least one value
  it adds the criterion \<^verbatim>\<open>field.in_(values)\<close>.
\<close>

theorem filter_in_collection_empty_or_in:
  "filter_in_collection field_name [] stmt = stmt
   \<and> filter_in_collection field_name (v # vs) stmt = add_where stmt (In field_name (v # vs))
   \<and> list self (CollectionFilter field_name [] # filters) kwargs s = list self filters kwargs s"
  by (simp add: filter_in_collection_def list_def)

text \<open>
  Claim C1. With both bounds given, \<^verbatim>\<open>_filter_on_datetime_field\<close> compares the column
  with the upper bound twice: for \<^verbatim>\<open>before = 10\<close> and \<^verbatim>\<open>after = 0\<close> the criteria are
  \<^verbatim>\<open>created < 10\<close> and \<^verbatim>\<open>created > 10\<close>, and the listing returns none of the three rows,
  whose values 5, 7 and 9 all lie strictly between the bounds.
\<close>

theorem filter_on_datetime_field_uses_before_twice:
  "filter_on_datetime_field ''created'' (Some 10) (Some (0::int)) select_model =
     Inr \<lparr>whereclause = [Lt ''created'' 10, Gt ''created'' 10],
          limit_clause = None, offset_clause = None\<rparr>
   \<and> list example_repository [BeforeAfter ''created'' (Some 10) (Some 0)] [] example_session
       = Inr ([], example_session)"
  by (simp add: builder_defs run_defs list_def example_repository_def example_session_def)

subsection \<open>Counting\<close>

text \<open>
  Claim C3. \<^verbatim>\<open>list_and_count\<close> reads the total from the first row of the page. On a
  page that is empty the total stays 0: with three rows in the table,
  \<^verbatim>\<open>LimitOffset(limit=10, offset=5)\<close> gives no entity and the total 0, while \<^verbatim>\<open>count\<close>
  with no filter gives 3.
\<close>

theorem list_and_count_empty_page_total:
  "list_and_count example_repository [LimitOffset 10 5] [] example_session
     = Inr (([], 0), example_session)
   \<and> count example_repository [] [] example_session = Inr 3"
  by (simp add: builder_defs run_defs list_and_count_def count_def
      example_repository_def example_session_def)

text \<open>
  Claim C2. On a repository whose base statement has no \<^verbatim>\<open>LIMIT\<close> and no \<^verbatim>\<open>OFFSET\<close> of
  its own, over a table whose rows all have their primary key, \<^verbatim>\<open>count\<close> with filters
  \<open>F\<close> and equality constraints \<open>E\<close> returns the length of the list that \<^verbatim>\<open>list\<close> returns
  for \<open>F\<close> without its \<^verbatim>\<open>LimitOffset\<close> filters and the same \<open>E\<close>, and raises what that
  listing raises: \<^verbatim>\<open>count\<close> applies no pagination and every other filter and constraint
  as \<^verbatim>\<open>list\<close> does.
\<close>

theorem count_eq_length_list:
  assumes "limit_clause (statement self) = None" and "offset_clause (statement self) = None"
    and "list_all (\<lambda>row. getattr row ''id'' \<noteq> None) (table s)"
  shows "count self filters kwargs s =
     map_sum id (\<lambda>(insts, s'). length insts) (list self (without_pagination filters) kwargs s)"
proof (cases "apply_filters filters False (statement self)")
  case (Inl e)
  then show ?thesis
    by (simp add: count_def list_def apply_filters_without_pagination [symmetric])
next
  case (Inr stmt)
  let ?st = "filter_select_by_kwargs stmt kwargs"
  from apply_filters_False_pagination [OF Inr] assms
  have p: "limit_clause ?st = None" "offset_clause ?st = None" by simp_all
  from Inr have "apply_filters (without_pagination filters) True (statement self) = Inr stmt"
    by (simp add: apply_filters_without_pagination)
  from list_unpaginated [OF this, of kwargs s] obtain insts s' where
    l: "list self (without_pagination filters) kwargs s = Inr (insts, s')" and
    a: "map attrs insts = paginate ?st (matching ?st (table s))"
    by blast
  from a p have "length insts = length (matching ?st (table s))"
    by (metis length_map paginate_unlimited)
  moreover from assms(3) have
    "filter (\<lambda>row. getattr row ''id'' \<noteq> None) (matching ?st (table s)) = matching ?st (table s)"
    unfolding matching_def by (auto simp: list_all_iff intro!: filter_cong)
  ultimately show ?thesis using Inr l p
    by (simp add: count_def execute_count_def paginate_unlimited)
qed

theorem count_eq_length_list_witness:
  "limit_clause (statement example_repository) = None
   \<and> offset_clause (statement example_repository) = None
   \<and> list_all (\<lambda>row. getattr row ''id'' \<noteq> None) (table example_session)
   \<and> count example_repository
         [LimitOffset 1 1, CollectionFilter ''id'' [Some 1, Some 2]] [] example_session = Inr 2
   \<and> map_sum id (\<lambda>(insts, s'). length insts)
         (list example_repository
            (without_pagination [LimitOffset 1 1, CollectionFilter ''id'' [Some 1, Some 2]]) []
            example_session) = Inr 2"
proof -
  have h1: "limit_clause (statement example_repository) = None"
    and h2: "offset_clause (statement example_repository) = None"
    by (simp_all add: example_repository_def select_model_def)
  have h3: "list_all (\<lambda>row. getattr row ''id'' \<noteq> None) (table example_session)"
    by (simp add: example_session_def getattr_def)
  have c: "count example_repository
      [LimitOffset 1 1, CollectionFilter ''id'' [Some 1, Some 2]] [] example_session = Inr 2"
    by (simp add: builder_defs run_defs count_def example_repository_def example_session_def)
  from count_eq_length_list [OF h1 h2 h3,
      of "[LimitOffset 1 1, CollectionFilter ''id'' [Some 1, Some 2]]" "[]"] c
  have "map_sum id (\<lambda>(insts, s'). length insts)
         (list example_repository
            (without_pagination [LimitOffset 1 1, CollectionFilter ''id'' [Some 1, Some 2]]) []
            example_session) = Inr 2"
    by simp
  with h1 h2 h3 c show ?thesis by simp
qed

subsection \<open>Bulk deletion and insertion\<close>





subsection \<open>Detachment of what is returned\<close>

text \<open>
  Claim C5. Whenever one of \<^verbatim>\<open>get\<close>, \<^verbatim>\<open>get_one\<close>, \<^verbatim>\<open>get_one_or_none\<close>, \<^verbatim>\<open>get_or_create\<close>,
  \<^verbatim>\<open>list\<close>, \<^verbatim>\<open>list_and_count\<close>, \<^verbatim>\<open>add\<close>, \<^verbatim>\<open>add_many\<close>, \<^verbatim>\<open>update\<close>, \<^verbatim>\<open>update_many\<close>,
  \<^verbatim>\<open>upsert\<close>, \<^verbatim>\<open>delete\<close> and \<^verbatim>\<open>delete_many\<close> returns, the session it leaves behind tracks
  none of the entities it returns: each has been expunged.
\<close>

theorem returned_entities_detached:
  "(get self item_id s = Inr (inst, s') \<longrightarrow> detached s' inst)
   \<and> (get_one self kwargs s = Inr (inst, s') \<longrightarrow> detached s' inst)
   \<and> (get_one_or_none self kwargs s = Inr (Some inst, s') \<longrightarrow> detached s' inst)
   \<and> (get_or_create self kwargs s = Inr ((inst, created), s') \<longrightarrow> detached s' inst)
   \<and> (list self filters kwargs s = Inr (insts, s') \<longrightarrow> list_all (detached s') insts)
   \<and> (list_and_count self filters kwargs s = Inr ((insts, n), s') \<longrightarrow> list_all (detached s') insts)
   \<and> (add self data s = Inr (inst, s') \<longrightarrow> detached s' inst)
   \<and> (add_many self many s = Inr (insts, s') \<longrightarrow> list_all (detached s') insts)
   \<and> (update self data s = Inr (inst, s') \<longrightarrow> detached s' inst)
   \<and> (update_many self many s = Inr (insts, s') \<longrightarrow> list_all (detached s') insts)
   \<and> (upsert self data s = Inr (inst, s') \<longrightarrow> detached s' inst)
   \<and> (delete self item_id s = Inr (inst, s') \<longrightarrow> detached s' inst)
   \<and> (delete_many self item_ids s = Inr (insts, s') \<longrightarrow> list_all (detached s') insts)"
proof (intro conjI impI)
  show "get self item_id s = Inr (inst, s') \<Longrightarrow> detached s' inst"
    by (rule get_detached)
  show "get_one self kwargs s = Inr (inst, s') \<Longrightarrow> detached s' inst"
    by (rule get_one_detached)
  show "get_one_or_none self kwargs s = Inr (Some inst, s') \<Longrightarrow> detached s' inst"
    by (rule get_one_or_none_detached)
  show "get_or_create self kwargs s = Inr ((inst, created), s') \<Longrightarrow> detached s' inst"
    by (rule get_or_create_detached)
  show "list self filters kwargs s = Inr (insts, s') \<Longrightarrow> list_all (detached s') insts"
    by (rule list_detached)
  show "list_and_count self filters kwargs s = Inr ((insts, n), s') \<Longrightarrow> list_all (detached s') insts"
    by (rule list_and_count_detached)
  show "add self data s = Inr (inst, s') \<Longrightarrow> detached s' inst"
    by (rule add_detached)
  show "add_many self many s = Inr (insts, s') \<Longrightarrow> list_all (detached s') insts"
    by (rule add_many_detached)
  show "update self data s = Inr (inst, s') \<Longrightarrow> detached s' inst"
    by (rule update_detached)
  show "update_many self many s = Inr (insts, s') \<Longrightarrow> list_all (detached s') insts"
    by (rule update_many_detached)
  show "upsert self data s = Inr (inst, s') \<Longrightarrow> detached s' inst"
    by (rule upsert_detached)
  show "delete self item_id s = Inr (inst, s') \<Longrightarrow> detached s' inst"
    by (rule delete_detached)
  show "delete_many self item_ids s = Inr (insts, s') \<Longrightarrow> list_all (detached s') insts"
    by (rule delete_many_detached)
qed

theorem returned_entities_detached_witness:
  "(case get example_repository (Some 2) example_session of
      Inl e \<Rightarrow> False | Inr (inst, s') \<Rightarrow> detached s' inst)
   \<and> (case get_one example_repository [(''created'', Some 7)] example_session of
      Inl e \<Rightarrow> False | Inr (inst, s') \<Rightarrow> detached s' inst)
   \<and> (case get_one_or_none example_repository [(''created'', Some 7)] example_session of
      Inl e \<Rightarrow> False | Inr (None, s') \<Rightarrow> False | Inr (Some inst, s') \<Rightarrow> detached s' inst)
   \<and> (case get_or_create example_repository [(''created'', Some 7)] example_session of
      Inl e \<Rightarrow> False | Inr ((inst, created), s') \<Rightarrow> detached s' inst)
   \<and> (case list example_repository [LimitOffset 2 1] [] example_session of
      Inl e \<Rightarrow> False | Inr (insts, s') \<Rightarrow> list_all (detached s') insts)
   \<and> (case list_and_count example_repository [LimitOffset 2 1] [] example_session of
      Inl e \<Rightarrow> False | Inr ((insts, n), s') \<Rightarrow> list_all (detached s') insts)
   \<and> (case add example_repository \<lparr>oid = 50, attrs = [(''created'', 11)]\<rparr> example_session of
      Inl e \<Rightarrow> False | Inr (inst, s') \<Rightarrow> detached s' inst)
   \<and> (case add_many example_repository [\<lparr>oid = 50, attrs = [(''created'', 11)]\<rparr>]
           example_session of
      Inl e \<Rightarrow> False | Inr (insts, s') \<Rightarrow> list_all (detached s') insts)
   \<and> (case update example_repository \<lparr>oid = 50, attrs = [(''id'', 2), (''created'', 11)]\<rparr>
           example_session of
      Inl e \<Rightarrow> False | Inr (inst, s') \<Rightarrow> detached s' inst)
   \<and> (case update_many example_repository [\<lparr>oid = 50, attrs = [(''id'', 2), (''created'', 11)]\<rparr>]
           example_session of
      Inl e \<Rightarrow> False | Inr (insts, s') \<Rightarrow> list_all (detached s') insts)
   \<and> (case upsert example_repository \<lparr>oid = 50, attrs = [(''created'', 11)]\<rparr> example_session of
      Inl e \<Rightarrow> False | Inr (inst, s') \<Rightarrow> detached s' inst)
   \<and> (case delete example_repository (Some 2) example_session of
      Inl e \<Rightarrow> False | Inr (inst, s') \<Rightarrow> detached s' inst)
   \<and> (case delete_many example_repository [Some 1, Some 3] example_session of
      Inl e \<Rightarrow> False | Inr (insts, s') \<Rightarrow> list_all (detached s') insts)
   \<and> (case add_many example_repository [\<lparr>oid = 50, attrs = [(''created'', 11)]\<rparr>]
           returning_session of
      Inl e \<Rightarrow> False | Inr (insts, s') \<Rightarrow> list_all (detached s') insts)
   \<and> (case update_many example_repository [\<lparr>oid = 50, attrs = [(''id'', 2), (''created'', 11)]\<rparr>]
           returning_session of
      Inl e \<Rightarrow> False | Inr (insts, s') \<Rightarrow> list_all (detached s') insts)
   \<and> (case delete_many example_repository [Some 1, Some 3] returning_session of
      Inl e \<Rightarrow> False | Inr (insts, s') \<Rightarrow> list_all (detached s') insts)"
proof -
  note fact = returned_entities_detached
  have "\<not> isl (get example_repository (Some 2) example_session)"
    by code_simp
  then obtain i1 s1 where e1: "get example_repository (Some 2) example_session = Inr (i1, s1)"
    by (rule not_isl_pairE)
  from fact [where self = example_repository and s = example_session and item_id = "Some 2"
      and inst = i1 and s' = s1] e1
  have c1: "case get example_repository (Some 2) example_session of
      Inl e \<Rightarrow> False | Inr (inst, s') \<Rightarrow> detached s' inst"
    by simp
  have "\<not> isl (get_one example_repository [(''created'', Some 7)] example_session)"
    by code_simp
  then obtain i2 s2 where
    e2: "get_one example_repository [(''created'', Some 7)] example_session = Inr (i2, s2)"
    by (rule not_isl_pairE)
  from fact [where self = example_repository and s = example_session
      and kwargs = "[(''created'', Some 7)]" and inst = i2 and s' = s2] e2
  have c2: "case get_one example_repository [(''created'', Some 7)] example_session of
      Inl e \<Rightarrow> False | Inr (inst, s') \<Rightarrow> detached s' inst"
    by simp
  have "case get_one_or_none example_repository [(''created'', Some 7)] example_session of
      Inl e \<Rightarrow> False | Inr (None, s') \<Rightarrow> False | Inr (Some i, s') \<Rightarrow> True"
    by code_simp
  then obtain i3 s3 where
    e3: "get_one_or_none example_repository [(''created'', Some 7)] example_session
          = Inr (Some i3, s3)"
    by (rule found_pairE)
  from fact [where self = example_repository and s = example_session
      and kwargs = "[(''created'', Some 7)]" and inst = i3 and s' = s3] e3
  have c3: "case get_one_or_none example_repository [(''created'', Some 7)] example_session of
      Inl e \<Rightarrow> False | Inr (None, s') \<Rightarrow> False | Inr (Some inst, s') \<Rightarrow> detached s' inst"
    by simp
  have "\<not> isl (get_or_create example_repository [(''created'', Some 7)] example_session)"
    by code_simp
  then obtain p4 s4 where
    e4: "get_or_create example_repository [(''created'', Some 7)] example_session = Inr (p4, s4)"
    by (rule not_isl_pairE)
  from fact [where self = example_repository and s = example_session
      and kwargs = "[(''created'', Some 7)]" and inst = "fst p4" and created = "snd p4"
      and s' = s4] e4
  have c4: "case get_or_create example_repository [(''created'', Some 7)] example_session of
      Inl e \<Rightarrow> False | Inr ((inst, created), s') \<Rightarrow> detached s' inst"
    by (simp add: case_prod_unfold)
  have "\<not> isl (list example_repository [LimitOffset 2 1] [] example_session)"
    by code_simp
  then obtain i5 s5 where
    e5: "list example_repository [LimitOffset 2 1] [] example_session = Inr (i5, s5)"
    by (rule not_isl_pairE)
  from fact [where self = example_repository and s = example_session
      and filters = "[LimitOffset 2 1]" and kwargs = "[]" and insts = i5 and s' = s5] e5
  have c5: "case list example_repository [LimitOffset 2 1] [] example_session of
      Inl e \<Rightarrow> False | Inr (insts, s') \<Rightarrow> list_all (detached s') insts"
    by simp
  have "\<not> isl (list_and_count example_repository [LimitOffset 2 1] [] example_session)"
    by code_simp
  then obtain p6 s6 where
    e6: "list_and_count example_repository [LimitOffset 2 1] [] example_session = Inr (p6, s6)"
    by (rule not_isl_pairE)
  from fact [where self = example_repository and s = example_session
      and filters = "[LimitOffset 2 1]" and kwargs = "[]" and insts = "fst p6" and n = "snd p6"
      and s' = s6] e6
  have c6: "case list_and_count example_repository [LimitOffset 2 1] [] example_session of
      Inl e \<Rightarrow> False | Inr ((insts, n), s') \<Rightarrow> list_all (detached s') insts"
    by (simp add: case_prod_unfold)
  have "\<not> isl (add example_repository \<lparr>oid = 50, attrs = [(''created'', 11)]\<rparr> example_session)"
    by code_simp
  then obtain i7 s7 where
    e7: "add example_repository \<lparr>oid = 50, attrs = [(''created'', 11)]\<rparr> example_session
          = Inr (i7, s7)"
    by (rule not_isl_pairE)
  from fact [where self = example_repository and s = example_session
      and data = "\<lparr>oid = 50, attrs = [(''created'', 11)]\<rparr>" and inst = i7 and s' = s7] e7
  have c7: "case add example_repository \<lparr>oid = 50, attrs = [(''created'', 11)]\<rparr> example_session of
      Inl e \<Rightarrow> False | Inr (inst, s') \<Rightarrow> detached s' inst"
    by simp
  have "\<not> isl (add_many example_repository [\<lparr>oid = 50, attrs = [(''created'', 11)]\<rparr>]
           example_session)"
    by code_simp
  then obtain i8 s8 where
    e8: "add_many example_repository [\<lparr>oid = 50, attrs = [(''created'', 11)]\<rparr>] example_session
          = Inr (i8, s8)"
    by (rule not_isl_pairE)
  from fact [where self = example_repository and s = example_session
      and many = "[\<lparr>oid = 50, attrs = [(''created'', 11)]\<rparr>]" and insts = i8 and s' = s8] e8
  have c8: "case add_many example_repository [\<lparr>oid = 50, attrs = [(''created'', 11)]\<rparr>]
           example_session of
      Inl e \<Rightarrow> False | Inr (insts, s') \<Rightarrow> list_all (detached s') insts"
    by simp
  have "\<not> isl (update example_repository \<lparr>oid = 50, attrs = [(''id'', 2), (''created'', 11)]\<rparr>
           example_session)"
    by code_simp
  then obtain i9 s9 where
    e9: "update example_repository \<lparr>oid = 50, attrs = [(''id'', 2), (''created'', 11)]\<rparr>
           example_session = Inr (i9, s9)"
    by (rule not_isl_pairE)
  from fact [where self = example_repository and s = example_session
      and data = "\<lparr>oid = 50, attrs = [(''id'', 2), (''created'', 11)]\<rparr>" and inst = i9
      and s' = s9] e9
  have c9: "case update example_repository \<lparr>oid = 50, attrs = [(''id'', 2), (''created'', 11)]\<rparr>
           example_session of
      Inl e \<Rightarrow> False | Inr (inst, s') \<Rightarrow> detached s' inst"
    by simp
  have "\<not> isl (update_many example_repository
           [\<lparr>oid = 50, attrs = [(''id'', 2), (''created'', 11)]\<rparr>] example_session)"
    by code_simp
  then obtain i10 s10 where
    e10: "update_many example_repository [\<lparr>oid = 50, attrs = [(''id'', 2), (''created'', 11)]\<rparr>]
           example_session = Inr (i10, s10)"
    by (rule not_isl_pairE)
  from fact [where self = example_repository and s = example_session
      and many = "[\<lparr>oid = 50, attrs = [(''id'', 2), (''created'', 11)]\<rparr>]" and insts = i10
      and s' = s10] e10
  have c10: "case update_many example_repository
           [\<lparr>oid = 50, attrs = [(''id'', 2), (''created'', 11)]\<rparr>] example_session of
      Inl e \<Rightarrow> False | Inr (insts, s') \<Rightarrow> list_all (detached s') insts"
    by simp
  have "\<not> isl (upsert example_repository \<lparr>oid = 50, attrs = [(''created'', 11)]\<rparr> example_session)"
    by code_simp
  then obtain i11 s11 where
    e11: "upsert example_repository \<lparr>oid = 50, attrs = [(''created'', 11)]\<rparr> example_session
          = Inr (i11, s11)"
    by (rule not_isl_pairE)
  from fact [where self = example_repository and s = example_session
      and data = "\<lparr>oid = 50, attrs = [(''created'', 11)]\<rparr>" and inst = i11 and s' = s11] e11
  have c11: "case upsert example_repository \<lparr>oid = 50, attrs = [(''created'', 11)]\<rparr>
           example_session of
      Inl e \<Rightarrow> False | Inr (inst, s') \<Rightarrow> detached s' inst"
    by simp
  have "\<not> isl (delete example_repository (Some 2) example_session)"
    by code_simp
  then obtain i12 s12 where
    e12: "delete example_repository (Some 2) example_session = Inr (i12, s12)"
    by (rule not_isl_pairE)
  from fact [where self = example_repository and s = example_session and item_id = "Some 2"
      and inst = i12 and s' = s12] e12
  have c12: "case delete example_repository (Some 2) example_session of
      Inl e \<Rightarrow> False | Inr (inst, s') \<Rightarrow> detached s' inst"
    by simp
  have "\<not> isl (delete_many example_repository [Some 1, Some 3] example_session)"
    by code_simp
  then obtain i13 s13 where
    e13: "delete_many example_repository [Some 1, Some 3] example_session = Inr (i13, s13)"
    by (rule not_isl_pairE)
  from fact [where self = example_repository and s = example_session
      and item_ids = "[Some 1, Some 3]" and insts = i13 and s' = s13] e13
  have c13: "case delete_many example_repository [Some 1, Some 3] example_session of
      Inl e \<Rightarrow> False | Inr (insts, s') \<Rightarrow> list_all (detached s') insts"
    by simp
  have "\<not> isl (add_many example_repository [\<lparr>oid = 50, attrs = [(''created'', 11)]\<rparr>]
           returning_session)"
    by code_simp
  then obtain i14 s14 where
    e14: "add_many example_repository [\<lparr>oid = 50, attrs = [(''created'', 11)]\<rparr>] returning_session
          = Inr (i14, s14)"
    by (rule not_isl_pairE)
  from fact [where self = example_repository and s = returning_session
      and many = "[\<lparr>oid = 50, attrs = [(''created'', 11)]\<rparr>]" and insts = i14 and s' = s14] e14
  have c14: "case add_many example_repository [\<lparr>oid = 50, attrs = [(''created'', 11)]\<rparr>]
           returning_session of
      Inl e \<Rightarrow> False | Inr (insts, s') \<Rightarrow> list_all (detached s') insts"
    by simp
  have "\<not> isl (update_many example_repository
           [\<lparr>oid = 50, attrs = [(''id'', 2), (''created'', 11)]\<rparr>] returning_session)"
    by code_simp
  then obtain i15 s15 where
    e15: "update_many example_repository [\<lparr>oid = 50, attrs = [(''id'', 2), (''created'', 11)]\<rparr>]
           returning_session = Inr (i15, s15)"
    by (rule not_isl_pairE)
  from fact [where self = example_repository and s = returning_session
      and many = "[\<lparr>oid = 50, attrs = [(''id'', 2), (''created'', 11)]\<rparr>]" and insts = i15
      and s' = s15] e15
  have c15: "case update_many example_repository
           [\<lparr>oid = 50, attrs = [(''id'', 2), (''created'', 11)]\<rparr>] returning_session of
      Inl e \<Rightarrow> False | Inr (insts, s') \<Rightarrow> list_all (detached s') insts"
    by simp
  have "\<not> isl (delete_many example_repository [Some 1, Some 3] returning_session)"
    by code_simp
  then obtain i16 s16 where
    e16: "delete_many example_repository [Some 1, Some 3] returning_session = Inr (i16, s16)"
    by (rule not_isl_pairE)
  from fact [where self = example_repository and s = returning_session
      and item_ids = "[Some 1, Some 3]" and insts = i16 and s' = s16] e16
  have c16: "case delete_many example_repository [Some 1, Some 3] returning_session of
      Inl e \<Rightarrow> False | Inr (insts, s') \<Rightarrow> list_all (detached s') insts"
    by simp
  from c1 c2 c3 c4 c5 c6 c7 c8 c9 c10 c11 c12 c13 c14 c15 c16 show ?thesis
    by (intro conjI)
qed

subsection \<open>Slugs\<close>



subsection \<open>\<^verbatim>\<open>get_or_create\<close>\<close>




end
